theory Spec2Isabelle
  imports Main "HOL-Library.Multiset"
begin

section \<open>Strings\<close>

text \<open>
  A JavaScript string is modelled as a \<^typ>\<open>string\<close>, one \<^typ>\<open>char\<close> per code unit
  (code units below 256).  \<open>trim\<close> is \<^verbatim>\<open>String.prototype.trim\<close>: it strips the
  white space and line terminators of ECMAScript that lie in that range from both ends.
  \<open>includes_str\<close> is \<^verbatim>\<open>String.prototype.includes\<close>.
\<close>

definition isWhiteSpace :: "char \<Rightarrow> bool" where
  "isWhiteSpace c = (of_char c \<in> {9, 10, 11, 12, 13, 32, 160 :: nat})"

definition trim :: "string \<Rightarrow> string" where
  "trim s = rev (dropWhile isWhiteSpace (rev (dropWhile isWhiteSpace s)))"

definition startsWith :: "string \<Rightarrow> string \<Rightarrow> bool" where
  "startsWith s sub = (take (length sub) s = sub)"

fun includes_str :: "string \<Rightarrow> string \<Rightarrow> bool" where
  "includes_str [] sub = (sub = [])"
| "includes_str (c # cs) sub = (startsWith (c # cs) sub \<or> includes_str cs sub)"

section \<open>Dates\<close>

text \<open>
  \<^verbatim>\<open>new Date(value)\<close> is a built-in of the platform, so the parser is a parameter of
  every function that reads a date: \<open>parseDate s\<close> is the time value (milliseconds) of
  \<^verbatim>\<open>new Date(s)\<close>, and \<open>None\<close> stands for \<^verbatim>\<open>NaN\<close>, the time value of an invalid
  date.  Arithmetic and comparison on time values follow JavaScript: a difference with
  \<^verbatim>\<open>NaN\<close> is \<^verbatim>\<open>NaN\<close>, and every comparison with \<^verbatim>\<open>NaN\<close> is false.
\<close>

type_synonym date_parser = "string \<Rightarrow> int option"

fun minus_num :: "int option \<Rightarrow> int option \<Rightarrow> int option" where
  "minus_num (Some a) (Some b) = Some (a - b)"
| "minus_num _ _ = None"

fun gt_num :: "int option \<Rightarrow> int option \<Rightarrow> bool" where
  "gt_num (Some a) (Some b) = (a > b)"
| "gt_num _ _ = False"

section \<open>Posts and the derived view state\<close>

text \<open>
  A post as the API delivers it and the component caches it: a numeric \<^verbatim>\<open>id\<close> (the
  field is named \<open>post_id\<close> here) and four strings.
\<close>

record post =
  post_id :: int
  title :: string
  description :: string
  created_at :: string
  updated_at :: string

text \<open>
  \<^verbatim>\<open>Array.prototype.sort\<close> with a comparator: the element \<open>x\<close> goes after \<open>y\<close>
  exactly when the comparator's value on \<open>(x, y)\<close> is positive; \<^verbatim>\<open>NaN\<close> counts as
  \<open>0\<close>.  The engine's algorithm is not fixed by the language, only that it is stable;
  it is modelled by a stable insertion sort, which is what every stable sort computes
  when the comparator is consistent.
\<close>

fun positive :: "int option \<Rightarrow> bool" where
  "positive (Some v) = (v > 0)"
| "positive None = False"

fun sort_insert :: "('a \<Rightarrow> 'a \<Rightarrow> int option) \<Rightarrow> 'a \<Rightarrow> 'a list \<Rightarrow> 'a list" where
  "sort_insert cmp x [] = [x]"
| "sort_insert cmp x (y # ys) =
     (if positive (cmp x y) then y # sort_insert cmp x ys else x # y # ys)"

fun array_sort :: "('a \<Rightarrow> 'a \<Rightarrow> int option) \<Rightarrow> 'a list \<Rightarrow> 'a list" where
  "array_sort cmp [] = []"
| "array_sort cmp (x # xs) = sort_insert cmp x (array_sort cmp xs)"

text \<open>
  \<^verbatim>\<open>[...posts].sort((a, b) => new Date(b.created_at) - new Date(a.created_at))\<close>
\<close>

definition sortedPosts :: "date_parser \<Rightarrow> post list \<Rightarrow> post list" where
  "sortedPosts parseDate posts =
     array_sort (\<lambda>a b. minus_num (parseDate (created_at b)) (parseDate (created_at a))) posts"

text \<open>
  \<^verbatim>\<open>posts.reduce((latest, post) => ..., null)\<close>: a post object is truthy, so
  \<^verbatim>\<open>!latest\<close> holds for \<^verbatim>\<open>null\<close> only.
\<close>

definition later_of :: "date_parser \<Rightarrow> post option \<Rightarrow> post \<Rightarrow> post option" where
  "later_of parseDate latest post =
     (case latest of
        None \<Rightarrow> Some post
      | Some l \<Rightarrow>
          if gt_num (parseDate (updated_at post)) (parseDate (updated_at l))
          then Some post else Some l)"

definition latestUpdated :: "date_parser \<Rightarrow> post list \<Rightarrow> post option" where
  "latestUpdated parseDate posts =
     (if length posts = 0 then None else foldl (later_of parseDate) None posts)"

text \<open>
  \<open>formatDate\<close>: \<^verbatim>\<open>!value\<close> holds for the empty string; \<open>format\<close> is
  \<^verbatim>\<open>Intl.DateTimeFormat('en-US', {dateStyle: 'medium', timeStyle: 'short'}).format\<close>,
  a built-in of the platform.
\<close>

definition formatDate :: "date_parser \<Rightarrow> (int \<Rightarrow> string) \<Rightarrow> string \<Rightarrow> string" where
  "formatDate parseDate format value =
     (if value = [] then ''-''
      else case parseDate value of
             None \<Rightarrow> value
           | Some t \<Rightarrow> format t)"

section \<open>JavaScript values and response payloads\<close>

text \<open>
  The value of a parsed JSON body, and what a property access on it yields.  Numbers are
  restricted to integers.  An object is the list of its own properties in enumeration
  order, with pairwise distinct keys.
\<close>

datatype jsval =
    JUndefined
  | JNull
  | JBool bool
  | JNum int
  | JStr string
  | JArr "jsval list"
  | JObj "(string \<times> jsval) list"

fun truthy :: "jsval \<Rightarrow> bool" where
  "truthy JUndefined = False"
| "truthy JNull = False"
| "truthy (JBool b) = b"
| "truthy (JNum n) = (n \<noteq> 0)"
| "truthy (JStr s) = (s \<noteq> [])"
| "truthy (JArr xs) = True"
| "truthy (JObj kvs) = True"

text \<open>\<^verbatim>\<open>typeof v === 'object'\<close>\<close>

fun typeof_object :: "jsval \<Rightarrow> bool" where
  "typeof_object JNull = True"
| "typeof_object (JArr xs) = True"
| "typeof_object (JObj kvs) = True"
| "typeof_object _ = False"

text \<open>\<^verbatim>\<open>typeof v === 'string'\<close>\<close>

fun typeof_string :: "jsval \<Rightarrow> bool" where
  "typeof_string (JStr s) = True"
| "typeof_string _ = False"

text \<open>
  \<^verbatim>\<open>v?.key\<close> for one of the keys the component reads (none of them is a property of
  an array, a string, a number or a boolean).
\<close>

fun get :: "jsval \<Rightarrow> string \<Rightarrow> jsval" where
  "get (JObj kvs) key = (case map_of kvs key of None \<Rightarrow> JUndefined | Some v \<Rightarrow> v)"
| "get _ key = JUndefined"

text \<open>\<^verbatim>\<open>a || b\<close>\<close>

definition js_or :: "jsval \<Rightarrow> jsval \<Rightarrow> jsval" where
  "js_or a b = (if truthy a then a else b)"

definition extractToken :: "jsval \<Rightarrow> jsval" where
  "extractToken payload =
     (if \<not> truthy payload \<or> \<not> typeof_object payload then JStr []
      else js_or (js_or (js_or (get payload ''access_token'') (get payload ''token''))
                        (get (get payload ''data'') ''access_token''))
                 (JStr []))"

text \<open>
  \<^verbatim>\<open>Object.values(v)\<close>, \<^verbatim>\<open>.flat()\<close> and \<^verbatim>\<open>.join(' ')\<close>.  The conversion of a value
  to a string (\<^verbatim>\<open>String(v)\<close>) is a built-in of the platform and a parameter, \<open>toStr\<close>.
\<close>

fun object_values :: "jsval \<Rightarrow> jsval list" where
  "object_values (JObj kvs) = map snd kvs"
| "object_values (JArr xs) = xs"
| "object_values (JStr s) = map (\<lambda>c. JStr [c]) s"
| "object_values _ = []"

fun flat_item :: "jsval \<Rightarrow> jsval list" where
  "flat_item (JArr xs) = xs"
| "flat_item v = [v]"

definition flat :: "jsval list \<Rightarrow> jsval list" where
  "flat xs = concat (map flat_item xs)"

fun join_item :: "(jsval \<Rightarrow> string) \<Rightarrow> jsval \<Rightarrow> string" where
  "join_item toStr JUndefined = []"
| "join_item toStr JNull = []"
| "join_item toStr v = toStr v"

fun join :: "(jsval \<Rightarrow> string) \<Rightarrow> string \<Rightarrow> jsval list \<Rightarrow> string" where
  "join toStr sep [] = []"
| "join toStr sep [v] = join_item toStr v"
| "join toStr sep (v # vs) = join_item toStr v @ sep @ join toStr sep vs"

text \<open>The message of the error thrown by \<open>handleAuthSubmit\<close> on a response that is not ok.\<close>

definition authFailureMessage :: "(jsval \<Rightarrow> string) \<Rightarrow> jsval \<Rightarrow> string" where
  "authFailureMessage toStr data =
     toStr
       (js_or
          (js_or
             (js_or (get data ''message'')
                    (if typeof_string (get data ''error'') then get data ''error'' else JNull))
             (if truthy (get data ''errors'')
              then JStr (join toStr '' '' (flat (object_values (get data ''errors''))))
              else JNull))
          (JStr ''Authentication failed.''))"

section \<open>Requests, responses and thrown values\<close>

datatype http_method = GET | POST | PUT | DELETE

datatype url =
    POSTS_URL
  | POSTS_URL_id int
  | AUTH_URL_register
  | AUTH_URL_login
  | AUTH_URL_logout
  | AUTH_URL_me

text \<open>
  One call of \<^verbatim>\<open>fetch\<close>: \<open>bearer\<close> is the value interpolated into the
  \<^verbatim>\<open>Authorization: Bearer ...\<close> header (\<open>None\<close> when the header is not sent), and
  \<open>json_body\<close> the fields of the JSON body.
\<close>

record request =
  meth :: http_method
  target :: url
  bearer :: "jsval option"
  json_body :: "(string \<times> string) list"

text \<open>
  A thrown value is an \<^verbatim>\<open>Error\<close> with its message, or something else.  A call of
  \<^verbatim>\<open>fetch\<close> either rejects, or resolves with a status and a body; reading the body with
  \<^verbatim>\<open>response.json()\<close> either rejects or yields the parsed value.  \<^verbatim>\<open>response.ok\<close>
  holds for the statuses 200 to 299.
\<close>

datatype thrown = ErrorObj string | NonError

datatype 'a body = Malformed thrown | Json 'a

datatype 'a fetch_result = Rejected thrown | Response nat "'a body"

definition ok :: "nat \<Rightarrow> bool" where
  "ok status = (200 \<le> status \<and> status \<le> 299)"

text \<open>\<^verbatim>\<open>err instanceof Error ? err.message : 'Something went wrong.'\<close>\<close>

fun message_of :: "thrown \<Rightarrow> string" where
  "message_of (ErrorObj m) = m"
| "message_of NonError = ''Something went wrong.''"

section \<open>The component and its surroundings\<close>

datatype auth_mode = login | register

record auth_form =
  name :: string
  email :: string
  password :: string
  passwordConfirmation :: string

record post_form =
  title_field :: string
  description_field :: string

text \<open>
  An asynchronous handler stops at its \<^verbatim>\<open>await fetch(...)\<close> and goes on when the
  response arrives.  What is left to run is recorded with the variables the closure
  still reads: \<open>AwaitPosts\<close> is \<open>fetchPosts\<close> (the flag tells that \<open>handleSubmit\<close> is
  awaiting it), \<open>AwaitSubmit\<close> is \<open>handleSubmit\<close> with its \<^verbatim>\<open>isEditing\<close> and
  \<^verbatim>\<open>authToken\<close>, \<open>AwaitDelete\<close> is \<open>handleDelete\<close> with its \<^verbatim>\<open>postId\<close>.
\<close>

datatype continuation =
    AwaitPosts bool
  | AwaitMe
  | AwaitAuth
  | AwaitLogout
  | AwaitSubmit bool jsval
  | AwaitDelete int

text \<open>
  The state variables of \<^verbatim>\<open>App\<close>, followed by what lies outside React: \<open>storage\<close> is
  the entry \<^verbatim>\<open>auth_token\<close> of \<^verbatim>\<open>localStorage\<close> (the value last handed to
  \<^verbatim>\<open>setItem\<close>, \<open>None\<close> when the key is absent), \<open>calls\<close> lists every call of
  \<^verbatim>\<open>fetch\<close> made so far, \<open>pending\<close> the calls still awaiting their response, each with
  its continuation, and \<open>effectToken\<close> is the \<^verbatim>\<open>authToken\<close> for which the effect ran
  last.
\<close>

record app =
  posts :: "post list"
  isLoading :: bool
  error :: string
  authError :: string
  authLoading :: bool
  authMode :: auth_mode
  authForm :: auth_form
  authToken :: jsval
  authUser :: jsval
  editingId :: "int option"
  form :: post_form
  isSaving :: bool
  deletingId :: "int option"
  storage :: "jsval option"
  calls :: "request list"
  pending :: "(request \<times> continuation) list"
  effectToken :: jsval

definition isEditing :: "app \<Rightarrow> bool" where
  "isEditing w = (editingId w \<noteq> None)"

definition isAuthed :: "app \<Rightarrow> bool" where
  "isAuthed w = truthy (authToken w)"

text \<open>\<^verbatim>\<open>await fetch(...)\<close>: the call is made, and the handler waits.\<close>

definition fetch :: "request \<Rightarrow> continuation \<Rightarrow> app \<Rightarrow> app" where
  "fetch rq k w = w\<lparr>calls := calls w @ [rq], pending := pending w @ [(rq, k)]\<rparr>"

definition resetForm :: "app \<Rightarrow> app" where
  "resetForm w = w\<lparr>form := \<lparr>title_field = [], description_field = []\<rparr>, editingId := None\<rparr>"

definition clearAuth :: "app \<Rightarrow> app" where
  "clearAuth w = w\<lparr>storage := None, authToken := JStr [], authUser := JNull\<rparr>"

subsection \<open>fetchPosts\<close>

text \<open>
  \<open>tok\<close> is the \<^verbatim>\<open>authToken\<close> of the render whose \<open>fetchPosts\<close> is called.
\<close>

definition fetchPosts :: "jsval \<Rightarrow> bool \<Rightarrow> app \<Rightarrow> app" where
  "fetchPosts tok inSubmit w =
     (if \<not> truthy tok
      then w\<lparr>isLoading := False, error := ''Sign in to load posts.''\<rparr>
      else fetch \<lparr>meth = GET, target = POSTS_URL, bearer = Some tok, json_body = []\<rparr>
             (AwaitPosts inSubmit) (w\<lparr>isLoading := True, error := []\<rparr>))"

fun session_expired :: "thrown \<Rightarrow> bool" where
  "session_expired (ErrorObj m) = includes_str m ''Session expired''"
| "session_expired NonError = False"

definition fetchPosts_catch :: "thrown \<Rightarrow> app \<Rightarrow> app" where
  "fetchPosts_catch err w =
     (if session_expired err then clearAuth (w\<lparr>error := message_of err\<rparr>)
      else w\<lparr>error := message_of err\<rparr>)"

definition fetchPosts_resume :: "post list fetch_result \<Rightarrow> app \<Rightarrow> app" where
  "fetchPosts_resume r w =
     (case r of
        Rejected err \<Rightarrow> fetchPosts_catch err w
      | Response status b \<Rightarrow>
          if \<not> ok status then
            if status = 401
            then fetchPosts_catch (ErrorObj ''Session expired. Please sign in again.'') w
            else fetchPosts_catch (ErrorObj ''Failed to fetch posts.'') w
          else (case b of
                  Malformed err \<Rightarrow> fetchPosts_catch err w
                | Json data \<Rightarrow> w\<lparr>posts := data\<rparr>))
     \<lparr>isLoading := False\<rparr>"

subsection \<open>fetchMe and the effect on authToken\<close>

definition fetchMe :: "jsval \<Rightarrow> app \<Rightarrow> app" where
  "fetchMe token w =
     (if \<not> truthy token then w
      else fetch \<lparr>meth = GET, target = AUTH_URL_me, bearer = Some token, json_body = []\<rparr>
             AwaitMe w)"

definition fetchMe_resume :: "jsval fetch_result \<Rightarrow> app \<Rightarrow> app" where
  "fetchMe_resume r w =
     (case r of
        Rejected err \<Rightarrow> clearAuth w
      | Response status b \<Rightarrow>
          if \<not> ok status then clearAuth w
          else (case b of
                  Malformed err \<Rightarrow> clearAuth w
                | Json data \<Rightarrow> w\<lparr>authUser := data\<rparr>))"

text \<open>The body of \<^verbatim>\<open>useEffect(..., [authToken])\<close>, run by the current render.\<close>

definition effect :: "app \<Rightarrow> app" where
  "effect w =
     (if truthy (authToken w)
      then fetchPosts (authToken w) False (fetchMe (authToken w) w)
      else w\<lparr>posts := [], isLoading := False\<rparr>)"

text \<open>
  The state a handler leaves is the one React commits and renders.  After that render,
  and before the next event is handled, React runs the effect when \<^verbatim>\<open>authToken\<close>
  differs from the value it had when the effect last ran.  So the render committed by
  a handler that changes the token is still without what the effect does.
\<close>

definition run_effect :: "app \<Rightarrow> app" where
  "run_effect w =
     (if authToken w = effectToken w then w
      else effect (w\<lparr>effectToken := authToken w\<rparr>))"

subsection \<open>Form input\<close>

datatype form_field = title_input | description_input

datatype auth_field = name_input | email_input | password_input | passwordConfirmation_input

fun handleChange :: "form_field \<Rightarrow> string \<Rightarrow> app \<Rightarrow> app" where
  "handleChange title_input v w = w\<lparr>form := (form w)\<lparr>title_field := v\<rparr>\<rparr>"
| "handleChange description_input v w = w\<lparr>form := (form w)\<lparr>description_field := v\<rparr>\<rparr>"

fun handleAuthChange :: "auth_field \<Rightarrow> string \<Rightarrow> app \<Rightarrow> app" where
  "handleAuthChange name_input v w = w\<lparr>authForm := (authForm w)\<lparr>name := v\<rparr>\<rparr>"
| "handleAuthChange email_input v w = w\<lparr>authForm := (authForm w)\<lparr>email := v\<rparr>\<rparr>"
| "handleAuthChange password_input v w = w\<lparr>authForm := (authForm w)\<lparr>password := v\<rparr>\<rparr>"
| "handleAuthChange passwordConfirmation_input v w =
     w\<lparr>authForm := (authForm w)\<lparr>passwordConfirmation := v\<rparr>\<rparr>"

definition handleAuthMode :: "auth_mode \<Rightarrow> app \<Rightarrow> app" where
  "handleAuthMode mode w = w\<lparr>authMode := mode, authError := []\<rparr>"

subsection \<open>handleAuthSubmit\<close>

definition handleAuthSubmit :: "app \<Rightarrow> app" where
  "handleAuthSubmit w =
     fetch
       \<lparr>meth = POST,
        target = (if authMode w = register then AUTH_URL_register else AUTH_URL_login),
        bearer = None,
        json_body =
          (if authMode w = register
           then [(''name'', trim (name (authForm w))),
                 (''email'', trim (email (authForm w))),
                 (''password'', password (authForm w)),
                 (''password_confirmation'', passwordConfirmation (authForm w))]
           else [(''email'', trim (email (authForm w))),
                 (''password'', password (authForm w))])\<rparr>
       AwaitAuth
       (w\<lparr>authLoading := True, authError := []\<rparr>)"

text \<open>\<^verbatim>\<open>await response.json().catch(() => ({}))\<close>\<close>

fun json_or_empty :: "jsval body \<Rightarrow> jsval" where
  "json_or_empty (Json data) = data"
| "json_or_empty (Malformed err) = JObj []"

definition handleAuthSubmit_resume ::
  "(jsval \<Rightarrow> string) \<Rightarrow> jsval fetch_result \<Rightarrow> app \<Rightarrow> app" where
  "handleAuthSubmit_resume toStr r w =
     (case r of
        Rejected err \<Rightarrow> w\<lparr>authError := message_of err\<rparr>
      | Response status b \<Rightarrow>
          if \<not> ok status
          then w\<lparr>authError := authFailureMessage toStr (json_or_empty b)\<rparr>
          else if \<not> truthy (extractToken (json_or_empty b))
          then w\<lparr>authError := ''No token returned from the API.''\<rparr>
          else w\<lparr>storage := Some (extractToken (json_or_empty b)),
                 authToken := extractToken (json_or_empty b),
                 authForm := \<lparr>name = [], email = [], password = [],
                              passwordConfirmation = []\<rparr>\<rparr>)
     \<lparr>authLoading := False\<rparr>"

subsection \<open>handleLogout\<close>

definition handleLogout :: "app \<Rightarrow> app" where
  "handleLogout w =
     (if \<not> truthy (authToken w) then w
      else fetch \<lparr>meth = POST, target = AUTH_URL_logout, bearer = Some (authToken w),
                  json_body = []\<rparr>
             AwaitLogout (w\<lparr>authLoading := True, authError := []\<rparr>))"

text \<open>
  The \<^verbatim>\<open>finally\<close> block runs whether the call resolved (with any status) or rejected;
  a rejection then leaves the handler uncaught, with no further state update.
\<close>

definition handleLogout_resume :: "jsval fetch_result \<Rightarrow> app \<Rightarrow> app" where
  "handleLogout_resume r w = (clearAuth w)\<lparr>authLoading := False\<rparr>"

subsection \<open>handleSubmit\<close>

definition handleSubmit :: "app \<Rightarrow> app" where
  "handleSubmit w =
     (if trim (title_field (form w)) = [] \<or> trim (description_field (form w)) = []
      then w\<lparr>error := ''Title and description are required.''\<rparr>
      else if \<not> truthy (authToken w)
      then w\<lparr>error := ''Sign in to create or edit posts.''\<rparr>
      else fetch
             \<lparr>meth = (if isEditing w then PUT else POST),
              target = (case editingId w of Some i \<Rightarrow> POSTS_URL_id i | None \<Rightarrow> POSTS_URL),
              bearer = Some (authToken w),
              json_body = [(''title'', trim (title_field (form w))),
                           (''description'', trim (description_field (form w)))]\<rparr>
             (AwaitSubmit (isEditing w) (authToken w))
             (w\<lparr>isSaving := True, error := []\<rparr>))"

text \<open>
  After an ok response the handler resets the form and awaits \<open>fetchPosts\<close> of its own
  render, whose \<^verbatim>\<open>authToken\<close> is \<open>tok\<close>; its \<^verbatim>\<open>finally\<close> block runs when that
  \<open>fetchPosts\<close> has returned.
\<close>

definition handleSubmit_resume :: "bool \<Rightarrow> jsval \<Rightarrow> jsval fetch_result \<Rightarrow> app \<Rightarrow> app" where
  "handleSubmit_resume editing tok r w =
     (case r of
        Rejected err \<Rightarrow> w\<lparr>error := message_of err, isSaving := False\<rparr>
      | Response status b \<Rightarrow>
          if \<not> ok status
          then w\<lparr>error := (if editing then ''Failed to update post.''
                            else ''Failed to create post.''),
                 isSaving := False\<rparr>
          else if truthy tok then fetchPosts tok True (resetForm w)
          else (fetchPosts tok True (resetForm w))\<lparr>isSaving := False\<rparr>)"

subsection \<open>handleEdit, handleCancelEdit, handleDelete\<close>

definition handleEdit :: "post \<Rightarrow> app \<Rightarrow> app" where
  "handleEdit p w =
     w\<lparr>editingId := Some (post_id p),
       form := \<lparr>title_field = title p, description_field = description p\<rparr>\<rparr>"

definition handleCancelEdit :: "app \<Rightarrow> app" where
  "handleCancelEdit w = resetForm w"

text \<open>\<open>confirmed\<close> is the answer of \<^verbatim>\<open>window.confirm\<close>.\<close>

definition handleDelete :: "int \<Rightarrow> bool \<Rightarrow> app \<Rightarrow> app" where
  "handleDelete postId confirmed w =
     (if \<not> confirmed then w
      else fetch \<lparr>meth = DELETE, target = POSTS_URL_id postId, bearer = Some (authToken w),
                  json_body = []\<rparr>
             (AwaitDelete postId) (w\<lparr>deletingId := Some postId, error := []\<rparr>))"

definition handleDelete_resume :: "int \<Rightarrow> jsval fetch_result \<Rightarrow> app \<Rightarrow> app" where
  "handleDelete_resume postId r w =
     (case r of
        Rejected err \<Rightarrow> w\<lparr>error := message_of err\<rparr>
      | Response status b \<Rightarrow>
          if \<not> ok status then w\<lparr>error := ''Failed to delete post.''\<rparr>
          else w\<lparr>posts := filter (\<lambda>p. post_id p \<noteq> postId) (posts w)\<rparr>)
     \<lparr>deletingId := None\<rparr>"

section \<open>Runs of the component\<close>

text \<open>
  The first render takes \<^verbatim>\<open>authToken\<close> from \<^verbatim>\<open>localStorage.getItem('auth_token') || ''\<close>,
  and the effect runs once after it.
\<close>

definition initial :: "string option \<Rightarrow> app" where
  "initial stored =
     \<lparr>posts = [], isLoading = True, error = [], authError = [], authLoading = False,
      authMode = login,
      authForm = \<lparr>name = [], email = [], password = [], passwordConfirmation = []\<rparr>,
      authToken = (case stored of None \<Rightarrow> JStr [] | Some s \<Rightarrow> js_or (JStr s) (JStr [])),
      authUser = JNull, editingId = None,
      form = \<lparr>title_field = [], description_field = []\<rparr>,
      isSaving = False, deletingId = None,
      storage = map_option JStr stored, calls = [], pending = [],
      effectToken = (case stored of None \<Rightarrow> JStr [] | Some s \<Rightarrow> js_or (JStr s) (JStr []))\<rparr>"

definition mount :: "string option \<Rightarrow> app" where
  "mount stored = effect (initial stored)"

text \<open>
  What happens to the component: the user acts on a control, or the response to the
  \<open>i\<close>-th pending call arrives (the body of a response to \<^verbatim>\<open>GET /posts\<close> is an array of
  posts, any other body a JSON value).  A response is handed to the continuation of its
  call, which leaves \<open>pending\<close>; an arrival that names no pending call of its kind
  changes nothing.
\<close>

datatype event =
    Refresh
  | Change form_field string
  | AuthChange auth_field string
  | AuthMode auth_mode
  | AuthSubmit
  | Logout
  | Submit
  | Edit post
  | CancelEdit
  | Delete int bool
  | PostsResponse nat "post list fetch_result"
  | OtherResponse nat "jsval fetch_result"

definition take_pending :: "nat \<Rightarrow> app \<Rightarrow> app" where
  "take_pending i w = w\<lparr>pending := take i (pending w) @ drop (Suc i) (pending w)\<rparr>"

definition posts_response :: "nat \<Rightarrow> post list fetch_result \<Rightarrow> app \<Rightarrow> app" where
  "posts_response i r w =
     (if i < length (pending w) then
        (case snd (pending w ! i) of
           AwaitPosts inSubmit \<Rightarrow>
             if inSubmit then (fetchPosts_resume r (take_pending i w))\<lparr>isSaving := False\<rparr>
             else fetchPosts_resume r (take_pending i w)
         | _ \<Rightarrow> w)
      else w)"

definition other_response ::
  "(jsval \<Rightarrow> string) \<Rightarrow> nat \<Rightarrow> jsval fetch_result \<Rightarrow> app \<Rightarrow> app" where
  "other_response toStr i r w =
     (if i < length (pending w) then
        (case snd (pending w ! i) of
           AwaitPosts inSubmit \<Rightarrow> w
         | AwaitMe \<Rightarrow> fetchMe_resume r (take_pending i w)
         | AwaitAuth \<Rightarrow> handleAuthSubmit_resume toStr r (take_pending i w)
         | AwaitLogout \<Rightarrow> handleLogout_resume r (take_pending i w)
         | AwaitSubmit editing tok \<Rightarrow> handleSubmit_resume editing tok r (take_pending i w)
         | AwaitDelete postId \<Rightarrow> handleDelete_resume postId r (take_pending i w))
      else w)"

fun handle :: "(jsval \<Rightarrow> string) \<Rightarrow> event \<Rightarrow> app \<Rightarrow> app" where
  "handle toStr Refresh w = fetchPosts (authToken w) False w"
| "handle toStr (Change f v) w = handleChange f v w"
| "handle toStr (AuthChange f v) w = handleAuthChange f v w"
| "handle toStr (AuthMode m) w = handleAuthMode m w"
| "handle toStr AuthSubmit w = handleAuthSubmit w"
| "handle toStr Logout w = handleLogout w"
| "handle toStr Submit w = handleSubmit w"
| "handle toStr (Edit p) w = handleEdit p w"
| "handle toStr CancelEdit w = handleCancelEdit w"
| "handle toStr (Delete postId confirmed) w = handleDelete postId confirmed w"
| "handle toStr (PostsResponse i r) w = posts_response i r w"
| "handle toStr (OtherResponse i r) w = other_response toStr i r w"

definition step :: "(jsval \<Rightarrow> string) \<Rightarrow> event \<Rightarrow> app \<Rightarrow> app" where
  "step toStr e w = run_effect (handle toStr e w)"

fun run :: "(jsval \<Rightarrow> string) \<Rightarrow> app \<Rightarrow> event list \<Rightarrow> app" where
  "run toStr w [] = w"
| "run toStr w (e # es) = run toStr (step toStr e w) es"






text \<open>
  The component never cancels a call.  A response to \<^verbatim>\<open>GET /posts\<close> that arrives ok,
  with a body that parses, while \<^verbatim>\<open>authToken\<close> is empty belongs to a call made with
  the token of a session that has been cleared since: \<open>stale_list\<close> recognises such an
  arrival, and a run is \<open>fresh\<close> when none occurs in it.
\<close>

fun parsed_ok :: "'a fetch_result \<Rightarrow> bool" where
  "parsed_ok (Response status (Json data)) = ok status"
| "parsed_ok _ = False"

fun stale_list :: "event \<Rightarrow> app \<Rightarrow> bool" where
  "stale_list (PostsResponse i r) w = (\<not> truthy (authToken w) \<and> parsed_ok r)"
| "stale_list _ w = False"

fun fresh :: "(jsval \<Rightarrow> string) \<Rightarrow> app \<Rightarrow> event list \<Rightarrow> bool" where
  "fresh toStr w [] = True"
| "fresh toStr w (e # es) = (\<not> stale_list e w \<and> fresh toStr (step toStr e w) es)"

text \<open>
  The state between two events: the effect has run for the current \<^verbatim>\<open>authToken\<close>, and
  a signed-out component holds no posts.
\<close>

definition settled :: "app \<Rightarrow> bool" where
  "settled w = (effectToken w = authToken w \<and> (truthy (authToken w) \<or> posts w = []))"

section \<open>Sample inputs\<close>

text \<open>
  Instances of the platform's built-ins for the examples: \<open>sample_parseDate\<close> agrees
  with \<^verbatim>\<open>new Date(s).getTime()\<close> on the strings the examples use (two ISO dates, the
  empty string and \<^verbatim>\<open>not a date\<close>), \<open>sample_format\<close> renders their two times as the
  formatter does in UTC, and \<open>sample_toStr\<close> agrees with \<^verbatim>\<open>String(v)\<close> on strings.
\<close>

definition sample_parseDate :: date_parser where
  "sample_parseDate s =
     (if s = ''1970-01-02'' then Some 86400000
      else if s = ''1970-01-03'' then Some 172800000
      else None)"

definition sample_format :: "int \<Rightarrow> string" where
  "sample_format t = (if t = 86400000 then ''Jan 2, 1970, 12:00 AM'' else ''Jan 3, 1970, 12:00 AM'')"

fun sample_toStr :: "jsval \<Rightarrow> string" where
  "sample_toStr (JStr s) = s"
| "sample_toStr v = []"

definition post_a :: post where
  "post_a = \<lparr>post_id = 1, title = ''First'', description = ''One'',
             created_at = ''1970-01-02'', updated_at = ''1970-01-02''\<rparr>"

definition post_b :: post where
  "post_b = \<lparr>post_id = 2, title = ''Second'', description = ''Two'',
             created_at = ''1970-01-03'', updated_at = ''1970-01-03''\<rparr>"

definition post_c :: post where
  "post_c = \<lparr>post_id = 3, title = ''Third'', description = ''Three'',
             created_at = ''1970-01-02'', updated_at = ''not a date''\<rparr>"

definition post_d :: post where
  "post_d = \<lparr>post_id = 4, title = ''Fourth'', description = ''Four'',
             created_at = ''1970-01-03'', updated_at = ''1970-01-03''\<rparr>"

text \<open>
  States for the examples: a session restored from the storage, right after the mount;
  the same with two cached posts; and with the post form filled in, once with a title of
  two blanks around a tab.
\<close>

definition restored :: app where
  "restored = mount (Some ''T'')"

definition two_posts :: app where
  "two_posts = restored\<lparr>posts := [post_a, post_b]\<rparr>"

definition blank_title :: app where
  "blank_title =
     restored\<lparr>form := \<lparr>title_field = [CHR '' '', CHR 0x09, CHR '' ''],
                          description_field = ''text''\<rparr>\<rparr>"

definition filled :: app where
  "filled = restored\<lparr>form := \<lparr>title_field = ''Hello'', description_field = ''World''\<rparr>\<rparr>"

section \<open>Facts about the sort and the fold\<close>

lemma mset_sort_insert: "mset (sort_insert cmp x xs) = add_mset x (mset xs)"
  by (induction xs) auto

lemma mset_array_sort: "mset (array_sort cmp xs) = mset xs"
  by (induction xs) (auto simp: mset_sort_insert)

lemma set_sort_insert: "set (sort_insert cmp x xs) = insert x (set xs)"
  by (induction xs) auto

lemma set_array_sort: "set (array_sort cmp xs) = set xs"
  by (induction xs) (auto simp: set_sort_insert)

lemma sorted_sort_insert:
  assumes "sorted_wrt (\<lambda>p q. the (P (created_at q)) < the (P (created_at p))) ys"
    and "P (created_at x) \<noteq> None"
    and "\<forall>y \<in> set ys. P (created_at y) \<noteq> None \<and> P (created_at y) \<noteq> P (created_at x)"
  shows "sorted_wrt (\<lambda>p q. the (P (created_at q)) < the (P (created_at p)))
           (sort_insert (\<lambda>a b. minus_num (P (created_at b)) (P (created_at a))) x ys)"
  using assms
proof (induction ys)
  case Nil
  then show ?case by simp
next
  case (Cons y ys)
  from Cons.prems obtain tx ty where tx: "P (created_at x) = Some tx"
    and ty: "P (created_at y) = Some ty" and ne: "tx \<noteq> ty"
    by fastforce
  show ?case
  proof (cases "ty > tx")
    case True
    with Cons tx ty show ?thesis
      by (auto simp: set_sort_insert)
  next
    case False
    with ne have lt: "tx > ty" by simp
    have "\<forall>z \<in> set ys. the (P (created_at z)) < the (P (created_at x))"
    proof
      fix z assume "z \<in> set ys"
      with Cons.prems(1) have "the (P (created_at z)) < the (P (created_at y))" by simp
      with tx ty lt show "the (P (created_at z)) < the (P (created_at x))" by simp
    qed
    with Cons.prems(1) tx ty lt False show ?thesis
      by auto
  qed
qed

lemma sorted_array_sort:
  assumes "\<forall>p \<in> set xs. P (created_at p) \<noteq> None"
    and "distinct (map (\<lambda>p. P (created_at p)) xs)"
  shows "sorted_wrt (\<lambda>p q. the (P (created_at q)) < the (P (created_at p)))
           (array_sort (\<lambda>a b. minus_num (P (created_at b)) (P (created_at a))) xs)"
  using assms
proof (induction xs)
  case Nil
  then show ?case by simp
next
  case (Cons x xs)
  then have "sorted_wrt (\<lambda>p q. the (P (created_at q)) < the (P (created_at p)))
      (array_sort (\<lambda>a b. minus_num (P (created_at b)) (P (created_at a))) xs)"
    by simp
  moreover from Cons.prems have "P (created_at x) \<noteq> None" by simp
  moreover from Cons.prems have
    "\<forall>y \<in> set (array_sort (\<lambda>a b. minus_num (P (created_at b)) (P (created_at a))) xs).
        P (created_at y) \<noteq> None \<and> P (created_at y) \<noteq> P (created_at x)"
    by (auto simp: set_array_sort rev_image_eqI)
  ultimately show ?case
    by (simp add: sorted_sort_insert)
qed

text \<open>
  The fold of \<open>latestUpdated\<close> over a list whose dates all parse ends on the first post
  that carries the greatest time.  The induction adds the posts at the end, as the fold
  meets them.
\<close>

lemma foldl_later_of:
  assumes "ys \<noteq> []" and "\<forall>p \<in> set ys. P (updated_at p) \<noteq> None"
  shows "\<exists>i < length ys.
           foldl (later_of P) None ys = Some (ys ! i) \<and>
           (\<forall>q \<in> set ys. the (P (updated_at q)) \<le> the (P (updated_at (ys ! i)))) \<and>
           (\<forall>j < i. the (P (updated_at (ys ! j))) < the (P (updated_at (ys ! i))))"
  using assms
proof (induction ys rule: rev_induct)
  case Nil
  then show ?case by simp
next
  case (snoc x ys)
  show ?case
  proof (cases "ys = []")
    case True
    then show ?thesis by (simp add: later_of_def)
  next
    case False
    with snoc obtain i where i: "i < length ys"
      and f: "foldl (later_of P) None ys = Some (ys ! i)"
      and mx: "\<forall>q \<in> set ys. the (P (updated_at q)) \<le> the (P (updated_at (ys ! i)))"
      and first: "\<forall>j < i. the (P (updated_at (ys ! j))) < the (P (updated_at (ys ! i)))"
      by auto
    from snoc.prems obtain tx where tx: "P (updated_at x) = Some tx" by auto
    from snoc.prems i obtain tr where tr: "P (updated_at (ys ! i)) = Some tr"
      by fastforce
    show ?thesis
    proof (cases "tx > tr")
      case True
      have "foldl (later_of P) None (ys @ [x]) = Some ((ys @ [x]) ! length ys)"
        using f tx tr True by (simp add: later_of_def)
      moreover have "\<forall>q \<in> set (ys @ [x]).
          the (P (updated_at q)) \<le> the (P (updated_at ((ys @ [x]) ! length ys)))"
        using mx tx tr True by auto
      moreover have "\<forall>j < length ys.
          the (P (updated_at ((ys @ [x]) ! j))) < the (P (updated_at ((ys @ [x]) ! length ys)))"
      proof (intro allI impI)
        fix j assume j: "j < length ys"
        then have "ys ! j \<in> set ys" by (rule nth_mem)
        with mx have "the (P (updated_at (ys ! j))) \<le> the (P (updated_at (ys ! i)))"
          by blast
        with True tx tr j show
          "the (P (updated_at ((ys @ [x]) ! j))) < the (P (updated_at ((ys @ [x]) ! length ys)))"
          by (simp add: nth_append)
      qed
      ultimately show ?thesis
        by (intro exI[of _ "length ys"]) simp
    next
      case False
      have "foldl (later_of P) None (ys @ [x]) = Some ((ys @ [x]) ! i)"
        using f tx tr False i by (simp add: later_of_def nth_append)
      moreover have "\<forall>q \<in> set (ys @ [x]).
          the (P (updated_at q)) \<le> the (P (updated_at ((ys @ [x]) ! i)))"
        using mx tx tr False i by (auto simp: nth_append)
      moreover have "\<forall>j < i.
          the (P (updated_at ((ys @ [x]) ! j))) < the (P (updated_at ((ys @ [x]) ! i)))"
        using first i by (auto simp: nth_append)
      ultimately show ?thesis
        using i by (intro exI[of _ i]) simp
    qed
  qed
qed

section \<open>Facts about strings and statuses\<close>

lemma trim_white_space:
  assumes "list_all isWhiteSpace s"
  shows "trim s = []"
proof -
  from assms have "dropWhile isWhiteSpace s = []"
    by (induction s) auto
  then show ?thesis by (simp only: trim_def rev.simps dropWhile.simps)
qed

lemma failed_not_expired: "\<not> session_expired (ErrorObj ''Failed to fetch posts.'')"
  by (simp add: startsWith_def)

lemma expired_is_expired:
  "session_expired (ErrorObj ''Session expired. Please sign in again.'')"
  by (simp add: startsWith_def)

lemma not_ok_401: "\<not> ok 401"
  by (simp add: ok_def)

section \<open>The derived view state\<close>

text \<open>
  Claim C4.  For every cached list of posts whose \<^verbatim>\<open>created_at\<close> values all parse as
  dates and are pairwise distinct as dates, the displayed list is strictly descending by
  \<^verbatim>\<open>created_at\<close>, and it is a permutation of the cached list.
\<close>

theorem sortedPosts_descending:
  assumes "\<forall>p \<in> set ps. parseDate (created_at p) \<noteq> None"
    and "distinct (map (\<lambda>p. parseDate (created_at p)) ps)"
  shows "sorted_wrt (\<lambda>p q. the (parseDate (created_at q)) < the (parseDate (created_at p)))
           (sortedPosts parseDate ps) \<and>
         mset (sortedPosts parseDate ps) = mset ps"
  using sorted_array_sort[OF assms] by (simp add: sortedPosts_def mset_array_sort)

text \<open>Two posts cached oldest first are displayed newest first.\<close>

theorem sortedPosts_descending_witness:
  "sorted_wrt (\<lambda>p q. the (sample_parseDate (created_at q)) < the (sample_parseDate (created_at p)))
     (sortedPosts sample_parseDate [post_a, post_b]) \<and>
   mset (sortedPosts sample_parseDate [post_a, post_b]) = mset [post_a, post_b] \<and>
   sortedPosts sample_parseDate [post_a, post_b] = [post_b, post_a]"
proof -
  have "\<forall>p \<in> set [post_a, post_b]. sample_parseDate (created_at p) \<noteq> None"
    by (simp add: post_a_def post_b_def sample_parseDate_def)
  moreover have "distinct (map (\<lambda>p. sample_parseDate (created_at p)) [post_a, post_b])"
    by (simp add: post_a_def post_b_def sample_parseDate_def)
  ultimately have "sorted_wrt
       (\<lambda>p q. the (sample_parseDate (created_at q)) < the (sample_parseDate (created_at p)))
       (sortedPosts sample_parseDate [post_a, post_b]) \<and>
     mset (sortedPosts sample_parseDate [post_a, post_b]) = mset [post_a, post_b]"
    by (rule sortedPosts_descending)
  moreover have "sortedPosts sample_parseDate [post_a, post_b] = [post_b, post_a]"
    by (simp add: sortedPosts_def post_a_def post_b_def sample_parseDate_def)
  ultimately show ?thesis by simp
qed

text \<open>
  Claim C5, as amended.  For the empty list \<open>latestUpdated\<close> is \<^verbatim>\<open>null\<close>.  For every
  non-empty cached list whose \<^verbatim>\<open>updated_at\<close> values all parse as dates, it is a post of
  the list whose \<^verbatim>\<open>updated_at\<close> is the greatest of the list, and the first such post:
  every post before it is strictly older.
\<close>

theorem latestUpdated_maximal:
  "latestUpdated parseDate [] = None \<and>
   (ps \<noteq> [] \<and> (\<forall>p \<in> set ps. parseDate (updated_at p) \<noteq> None) \<longrightarrow>
      (\<exists>i < length ps.
         latestUpdated parseDate ps = Some (ps ! i) \<and>
         (\<forall>q \<in> set ps.
            the (parseDate (updated_at q)) \<le> the (parseDate (updated_at (ps ! i)))) \<and>
         (\<forall>j < i.
            the (parseDate (updated_at (ps ! j))) < the (parseDate (updated_at (ps ! i))))))"
proof (intro conjI impI)
  show "latestUpdated parseDate [] = None"
    by (simp add: latestUpdated_def)
next
  assume a: "ps \<noteq> [] \<and> (\<forall>p \<in> set ps. parseDate (updated_at p) \<noteq> None)"
  then have "ps \<noteq> []" and "\<forall>p \<in> set ps. parseDate (updated_at p) \<noteq> None"
    by simp_all
  from foldl_later_of[OF this] a
  show "\<exists>i < length ps.
         latestUpdated parseDate ps = Some (ps ! i) \<and>
         (\<forall>q \<in> set ps.
            the (parseDate (updated_at q)) \<le> the (parseDate (updated_at (ps ! i)))) \<and>
         (\<forall>j < i.
            the (parseDate (updated_at (ps ! j))) < the (parseDate (updated_at (ps ! i))))"
    by (simp add: latestUpdated_def)
qed

text \<open>Of an older post and two posts updated at the same later time, the first later one is found.\<close>

theorem latestUpdated_maximal_witness:
  "(\<exists>i < length [post_a, post_b, post_d].
      latestUpdated sample_parseDate [post_a, post_b, post_d] =
        Some ([post_a, post_b, post_d] ! i) \<and>
      (\<forall>q \<in> set [post_a, post_b, post_d].
         the (sample_parseDate (updated_at q)) \<le>
         the (sample_parseDate (updated_at ([post_a, post_b, post_d] ! i)))) \<and>
      (\<forall>j < i.
         the (sample_parseDate (updated_at ([post_a, post_b, post_d] ! j))) <
         the (sample_parseDate (updated_at ([post_a, post_b, post_d] ! i))))) \<and>
   latestUpdated sample_parseDate [post_a, post_b, post_d] = Some post_b \<and>
   latestUpdated sample_parseDate [] = None"
proof -
  have "[post_a, post_b, post_d] \<noteq> [] \<and>
        (\<forall>p \<in> set [post_a, post_b, post_d]. sample_parseDate (updated_at p) \<noteq> None)"
    by (simp add: post_a_def post_b_def post_d_def sample_parseDate_def)
  with latestUpdated_maximal[of sample_parseDate "[post_a, post_b, post_d]"]
  have "\<exists>i < length [post_a, post_b, post_d].
      latestUpdated sample_parseDate [post_a, post_b, post_d] =
        Some ([post_a, post_b, post_d] ! i) \<and>
      (\<forall>q \<in> set [post_a, post_b, post_d].
         the (sample_parseDate (updated_at q)) \<le>
         the (sample_parseDate (updated_at ([post_a, post_b, post_d] ! i)))) \<and>
      (\<forall>j < i.
         the (sample_parseDate (updated_at ([post_a, post_b, post_d] ! j))) <
         the (sample_parseDate (updated_at ([post_a, post_b, post_d] ! i))))"
    by blast
  moreover have "latestUpdated sample_parseDate [post_a, post_b, post_d] = Some post_b"
    by (simp add: latestUpdated_def later_of_def post_a_def post_b_def post_d_def
          sample_parseDate_def)
  moreover have "latestUpdated sample_parseDate [] = None"
    using latestUpdated_maximal[of sample_parseDate] by blast
  ultimately show ?thesis by blast
qed

text \<open>
  The claim as stated, for every non-empty list, fails when a date does not parse: the
  fold keeps a first post whose \<^verbatim>\<open>updated_at\<close> is no date, whatever follows, since no
  comparison with \<^verbatim>\<open>NaN\<close> succeeds.
\<close>

theorem latestUpdated_unparseable_counterexample:
  "latestUpdated sample_parseDate [post_c, post_a] = Some post_c \<and>
   sample_parseDate (updated_at post_c) = None \<and>
   sample_parseDate (updated_at post_a) = Some 86400000"
  by (simp add: latestUpdated_def later_of_def post_a_def post_c_def sample_parseDate_def)

text \<open>
  Claim C6, as amended.  For every non-empty date string that does not parse as a date,
  \<open>formatDate\<close> returns the string unchanged; for the empty string it returns a dash.
\<close>

theorem formatDate_unparseable:
  "formatDate parseDate format [] = ''-'' \<and>
   (v \<noteq> [] \<and> parseDate v = None \<longrightarrow> formatDate parseDate format v = v)"
  by (simp add: formatDate_def)

theorem formatDate_unparseable_witness:
  "formatDate sample_parseDate sample_format ''not a date'' = ''not a date''"
proof -
  have "''not a date'' \<noteq> [] \<and> sample_parseDate ''not a date'' = None"
    by (simp add: sample_parseDate_def)
  with formatDate_unparseable[of sample_parseDate sample_format "''not a date''"]
  show ?thesis by blast
qed

text \<open>
  The empty string is no date either, and it is not returned unchanged: the guard on a
  missing value comes first.
\<close>

theorem formatDate_empty_counterexample:
  "sample_parseDate [] = None \<and>
   formatDate sample_parseDate sample_format [] = ''-'' \<and>
   formatDate sample_parseDate sample_format [] \<noteq> []"
  by (simp add: formatDate_def sample_parseDate_def)

section \<open>The handlers\<close>

















text \<open>
  Claim C2, as amended.  For every ok response to a login or register call, the session
  token is the first of the top-level \<^verbatim>\<open>access_token\<close>, the top-level \<^verbatim>\<open>token\<close> and the
  nested \<^verbatim>\<open>data.access_token\<close>, in this order, that holds a truthy value (for a string,
  a non-empty one): it is persisted and held, and the session is authenticated.  If none
  of the three holds a truthy value, the error is \<^verbatim>\<open>No token returned from the API.\<close> and
  the token and the storage stay as they were.  In particular a response whose only
  token is a non-empty \<^verbatim>\<open>data.access_token\<close> yields an authenticated session.
\<close>

theorem handleAuthSubmit_token_order:
  "ok status \<Longrightarrow>
   (let data = json_or_empty b;
        a = get data ''access_token'';
        t = get data ''token'';
        d = get (get data ''data'') ''access_token'';
        w' = handleAuthSubmit_resume toStr (Response status b) w
    in (truthy a \<longrightarrow> authToken w' = a \<and> storage w' = Some a \<and> isAuthed w') \<and>
       (\<not> truthy a \<and> truthy t \<longrightarrow>
          authToken w' = t \<and> storage w' = Some t \<and> isAuthed w') \<and>
       (\<not> truthy a \<and> \<not> truthy t \<and> truthy d \<longrightarrow>
          authToken w' = d \<and> storage w' = Some d \<and> isAuthed w') \<and>
       (\<not> truthy a \<and> \<not> truthy t \<and> \<not> truthy d \<longrightarrow>
          authError w' = ''No token returned from the API.'' \<and>
          authToken w' = authToken w \<and> storage w' = storage w))"
  by (cases "json_or_empty b")
     (simp_all add: Let_def handleAuthSubmit_resume_def extractToken_def js_or_def isAuthed_def)

text \<open>A login answered with \<^verbatim>\<open>{"data": {"access_token": "abc"}}\<close> signs the user in.\<close>

theorem handleAuthSubmit_token_order_witness:
  "authToken (handleAuthSubmit_resume sample_toStr
      (Response 200 (Json (JObj [(''data'', JObj [(''access_token'', JStr ''abc'')])])))
      (handleAuthSubmit (mount None))) = JStr ''abc'' \<and>
   storage (handleAuthSubmit_resume sample_toStr
      (Response 200 (Json (JObj [(''data'', JObj [(''access_token'', JStr ''abc'')])])))
      (handleAuthSubmit (mount None))) = Some (JStr ''abc'') \<and>
   isAuthed (handleAuthSubmit_resume sample_toStr
      (Response 200 (Json (JObj [(''data'', JObj [(''access_token'', JStr ''abc'')])])))
      (handleAuthSubmit (mount None)))"
proof -
  have "ok 200" by (simp add: ok_def)
  from handleAuthSubmit_token_order[OF this,
      where b = "Json (JObj [(''data'', JObj [(''access_token'', JStr ''abc'')])])"
        and toStr = sample_toStr and w = "handleAuthSubmit (mount None)"]
  show ?thesis by (simp add: Let_def)
qed

text \<open>
  The claim as stated takes the first field that is present.  An \<^verbatim>\<open>access_token\<close> that
  is present and empty is passed over for the \<^verbatim>\<open>token\<close> that follows it; and a
  response whose only token field is an empty \<^verbatim>\<open>data.access_token\<close> ends in the error,
  with no session.
\<close>

theorem extractToken_present_counterexample:
  "get (JObj [(''access_token'', JStr []), (''token'', JStr ''abc'')]) ''access_token'' = JStr [] \<and>
   extractToken (JObj [(''access_token'', JStr []), (''token'', JStr ''abc'')]) = JStr ''abc'' \<and>
   ok 200 \<and>
   authError (handleAuthSubmit_resume sample_toStr
      (Response 200 (Json (JObj [(''data'', JObj [(''access_token'', JStr [])])])))
      (handleAuthSubmit (mount None))) = ''No token returned from the API.'' \<and>
   \<not> isAuthed (handleAuthSubmit_resume sample_toStr
      (Response 200 (Json (JObj [(''data'', JObj [(''access_token'', JStr [])])])))
      (handleAuthSubmit (mount None)))"
  by code_simp

text \<open>
  Claim C3.  When the list fetch receives a 401 response, the persisted token, the held
  token and the user are cleared and the message is
  \<^verbatim>\<open>Session expired. Please sign in again.\<close>; on every other response that is not ok the
  message is \<^verbatim>\<open>Failed to fetch posts.\<close> and the session is left as it was.
\<close>

theorem fetchPosts_not_ok:
  "\<not> ok status \<Longrightarrow>
   (status = 401 \<longrightarrow>
      storage (fetchPosts_resume (Response status b) w) = None \<and>
      authToken (fetchPosts_resume (Response status b) w) = JStr [] \<and>
      authUser (fetchPosts_resume (Response status b) w) = JNull \<and>
      \<not> isAuthed (fetchPosts_resume (Response status b) w) \<and>
      error (fetchPosts_resume (Response status b) w) =
        ''Session expired. Please sign in again.'') \<and>
   (status \<noteq> 401 \<longrightarrow>
      error (fetchPosts_resume (Response status b) w) = ''Failed to fetch posts.'' \<and>
      storage (fetchPosts_resume (Response status b) w) = storage w \<and>
      authToken (fetchPosts_resume (Response status b) w) = authToken w \<and>
      authUser (fetchPosts_resume (Response status b) w) = authUser w)"
  by (simp add: fetchPosts_resume_def fetchPosts_catch_def clearAuth_def isAuthed_def
        failed_not_expired expired_is_expired not_ok_401 del: session_expired.simps)

text \<open>A session restored from the storage meets a 401, and another one a 500.\<close>

theorem fetchPosts_not_ok_witness:
  "storage (fetchPosts_resume (Response 401 (Json [])) restored) = None \<and>
   authToken (fetchPosts_resume (Response 401 (Json [])) restored) = JStr [] \<and>
   authUser (fetchPosts_resume (Response 401 (Json [])) restored) = JNull \<and>
   error (fetchPosts_resume (Response 401 (Json [])) restored) =
     ''Session expired. Please sign in again.'' \<and>
   error (fetchPosts_resume (Response 500 (Json [])) restored) = ''Failed to fetch posts.'' \<and>
   storage (fetchPosts_resume (Response 500 (Json [])) restored) = Some (JStr ''T'') \<and>
   authToken (fetchPosts_resume (Response 500 (Json [])) restored) = JStr ''T''"
proof -
  have a: "\<not> ok 401" and b: "\<not> ok 500"
    by (simp_all add: ok_def)
  have m: "storage restored = Some (JStr ''T'')" "authToken restored = JStr ''T''"
    by code_simp+
  from fetchPosts_not_ok[OF a, where b = "Json []" and w = restored]
    fetchPosts_not_ok[OF b, where b = "Json []" and w = restored] m
  show ?thesis by simp
qed

text \<open>
  Claim C7.  A delete whose confirmation is declined makes no call and changes nothing.
  A confirmed delete makes exactly one call, \<^verbatim>\<open>DELETE /posts/:id\<close>; when its response is
  ok, the posts with that id, and no others, leave the cached list, and no further call
  is made: the list is not fetched again.
\<close>

theorem handleDelete_confirmation:
  "handleDelete postId False w = w \<and>
   calls (handleDelete postId True w) =
     calls w @ [\<lparr>meth = DELETE, target = POSTS_URL_id postId, bearer = Some (authToken w),
                 json_body = []\<rparr>] \<and>
   pending (handleDelete postId True w) =
     pending w @ [(\<lparr>meth = DELETE, target = POSTS_URL_id postId,
                    bearer = Some (authToken w), json_body = []\<rparr>, AwaitDelete postId)] \<and>
   posts (handleDelete postId True w) = posts w \<and>
   (ok status \<longrightarrow>
      posts (handleDelete_resume postId (Response status b) w') =
        filter (\<lambda>p. post_id p \<noteq> postId) (posts w') \<and>
      calls (handleDelete_resume postId (Response status b) w') = calls w' \<and>
      pending (handleDelete_resume postId (Response status b) w') = pending w')"
  by (simp add: handleDelete_def handleDelete_resume_def fetch_def)

text \<open>Of two cached posts the first is deleted, and the server answers 204.\<close>

theorem handleDelete_confirmation_witness:
  "handleDelete 1 False two_posts = two_posts \<and>
   calls (handleDelete 1 True two_posts) =
     calls two_posts @
       [\<lparr>meth = DELETE, target = POSTS_URL_id 1, bearer = Some (JStr ''T''),
         json_body = []\<rparr>] \<and>
   posts (handleDelete_resume 1 (Response 204 (Malformed (ErrorObj [])))
           (handleDelete 1 True two_posts)) = [post_b] \<and>
   calls (handleDelete_resume 1 (Response 204 (Malformed (ErrorObj [])))
           (handleDelete 1 True two_posts)) = calls (handleDelete 1 True two_posts)"
proof -
  have "ok 204" by (simp add: ok_def)
  moreover have "authToken two_posts = JStr ''T''" and "posts two_posts = [post_a, post_b]"
    by code_simp+
  moreover note handleDelete_confirmation[where postId = 1 and w = two_posts
      and status = 204 and b = "Malformed (ErrorObj [])"
      and w' = "handleDelete 1 True two_posts"]
  ultimately show ?thesis
    by (simp add: post_a_def post_b_def)
qed

text \<open>
  Claim C8.  A submission of the post form whose title or description is empty after
  trimming (a field of white space only trims to the empty string) sets the error
  \<^verbatim>\<open>Title and description are required.\<close> and makes no call.  When the call of a
  submission is answered ok, the form and the editing id are reset, the cached posts
  are left as they are, and \<^verbatim>\<open>GET /posts\<close> is called to fetch the list again.
\<close>

theorem handleSubmit_validation_refetch:
  "(trim (title_field (form w)) = [] \<or> trim (description_field (form w)) = [] \<longrightarrow>
      error (handleSubmit w) = ''Title and description are required.'' \<and>
      calls (handleSubmit w) = calls w \<and> pending (handleSubmit w) = pending w) \<and>
   (list_all isWhiteSpace (title_field (form w)) \<or>
    list_all isWhiteSpace (description_field (form w)) \<longrightarrow>
      trim (title_field (form w)) = [] \<or> trim (description_field (form w)) = []) \<and>
   (trim (title_field (form w)) \<noteq> [] \<and> trim (description_field (form w)) \<noteq> [] \<and>
    truthy (authToken w) \<and> ok status \<longrightarrow>
      snd (last (pending (handleSubmit w))) = AwaitSubmit (isEditing w) (authToken w) \<and>
      form (handleSubmit_resume (isEditing w) (authToken w) (Response status b) w') =
        \<lparr>title_field = [], description_field = []\<rparr> \<and>
      editingId (handleSubmit_resume (isEditing w) (authToken w) (Response status b) w') =
        None \<and>
      posts (handleSubmit_resume (isEditing w) (authToken w) (Response status b) w') =
        posts w' \<and>
      calls (handleSubmit_resume (isEditing w) (authToken w) (Response status b) w') =
        calls w' @ [\<lparr>meth = GET, target = POSTS_URL, bearer = Some (authToken w),
                     json_body = []\<rparr>] \<and>
      pending (handleSubmit_resume (isEditing w) (authToken w) (Response status b) w') =
        pending w' @ [(\<lparr>meth = GET, target = POSTS_URL, bearer = Some (authToken w),
                        json_body = []\<rparr>, AwaitPosts True)])"
proof (intro conjI impI)
  assume "list_all isWhiteSpace (title_field (form w)) \<or>
          list_all isWhiteSpace (description_field (form w))"
  then show "trim (title_field (form w)) = [] \<or> trim (description_field (form w)) = []"
    using trim_white_space by blast
qed (simp_all add: handleSubmit_def handleSubmit_resume_def fetchPosts_def resetForm_def
       fetch_def)

text \<open>
  A title of two blanks around a tab is refused; a filled form is sent, answered 201,
  and the list is fetched again.
\<close>

theorem handleSubmit_validation_refetch_witness:
  "error (handleSubmit blank_title) = ''Title and description are required.'' \<and>
   calls (handleSubmit blank_title) = calls blank_title \<and>
   pending (handleSubmit blank_title) = pending blank_title \<and>
   snd (last (pending (handleSubmit filled))) = AwaitSubmit False (JStr ''T'') \<and>
   form (handleSubmit_resume False (JStr ''T'') (Response 201 (Json JNull))
           (handleSubmit filled)) = \<lparr>title_field = [], description_field = []\<rparr> \<and>
   editingId (handleSubmit_resume False (JStr ''T'') (Response 201 (Json JNull))
           (handleSubmit filled)) = None \<and>
   calls (handleSubmit_resume False (JStr ''T'') (Response 201 (Json JNull))
           (handleSubmit filled)) =
     calls (handleSubmit filled) @
       [\<lparr>meth = GET, target = POSTS_URL, bearer = Some (JStr ''T''), json_body = []\<rparr>]"
proof -
  have "list_all isWhiteSpace (title_field (form blank_title))"
    by (simp add: blank_title_def isWhiteSpace_def)
  with handleSubmit_validation_refetch[where w = blank_title]
  have blank: "error (handleSubmit blank_title) = ''Title and description are required.'' \<and>
      calls (handleSubmit blank_title) = calls blank_title \<and>
      pending (handleSubmit blank_title) = pending blank_title"
    by blast
  have e: "isEditing filled = False" and t: "authToken filled = JStr ''T''"
    by code_simp+
  have "trim (title_field (form filled)) \<noteq> [] \<and> trim (description_field (form filled)) \<noteq> []"
    by (simp add: filled_def trim_def isWhiteSpace_def)
  moreover have "truthy (authToken filled)"
    by (simp add: t)
  moreover have "ok 201"
    by (simp add: ok_def)
  moreover note handleSubmit_validation_refetch[where w = filled and status = 201
      and b = "Json JNull" and w' = "handleSubmit filled"]
  ultimately have
    "snd (last (pending (handleSubmit filled))) =
       AwaitSubmit (isEditing filled) (authToken filled) \<and>
     form (handleSubmit_resume (isEditing filled) (authToken filled)
             (Response 201 (Json JNull)) (handleSubmit filled)) =
       \<lparr>title_field = [], description_field = []\<rparr> \<and>
     editingId (handleSubmit_resume (isEditing filled) (authToken filled)
             (Response 201 (Json JNull)) (handleSubmit filled)) = None \<and>
     calls (handleSubmit_resume (isEditing filled) (authToken filled)
             (Response 201 (Json JNull)) (handleSubmit filled)) =
       calls (handleSubmit filled) @
         [\<lparr>meth = GET, target = POSTS_URL, bearer = Some (authToken filled),
           json_body = []\<rparr>]"
    by blast
  with blank show ?thesis
    by (simp only: e t simp_thms)
qed

text \<open>
  Claim C9.  A logout with a non-empty token calls \<^verbatim>\<open>POST /auth/logout\<close>, and whatever
  comes back (a response of any status, or a rejection of the call) the persisted token,
  the held token and the user are cleared.
\<close>

theorem handleLogout_clears_session:
  "truthy (authToken w) \<Longrightarrow>
   calls (handleLogout w) =
     calls w @ [\<lparr>meth = POST, target = AUTH_URL_logout, bearer = Some (authToken w),
                 json_body = []\<rparr>] \<and>
   snd (last (pending (handleLogout w))) = AwaitLogout \<and>
   storage (handleLogout_resume r w') = None \<and>
   authToken (handleLogout_resume r w') = JStr [] \<and>
   authUser (handleLogout_resume r w') = JNull \<and>
   \<not> isAuthed (handleLogout_resume r w')"
  by (simp add: handleLogout_def handleLogout_resume_def clearAuth_def fetch_def isAuthed_def)

text \<open>The logout call of a restored session is rejected by the network, or answered 500.\<close>

theorem handleLogout_clears_session_witness:
  "calls (handleLogout restored) =
     calls restored @
       [\<lparr>meth = POST, target = AUTH_URL_logout, bearer = Some (JStr ''T''),
         json_body = []\<rparr>] \<and>
   storage (handleLogout_resume (Rejected (ErrorObj ''Failed to fetch''))
              (handleLogout restored)) = None \<and>
   authToken (handleLogout_resume (Rejected (ErrorObj ''Failed to fetch''))
              (handleLogout restored)) = JStr [] \<and>
   authUser (handleLogout_resume (Rejected (ErrorObj ''Failed to fetch''))
              (handleLogout restored)) = JNull \<and>
   storage (handleLogout_resume (Response 500 (Json JNull)) (handleLogout restored)) = None"
proof -
  have t: "authToken restored = JStr ''T''"
    by code_simp
  then have s: "truthy (authToken restored)"
    by simp
  from handleLogout_clears_session[OF s,
      where r = "Rejected (ErrorObj ''Failed to fetch'')" and w' = "handleLogout restored"]
    handleLogout_clears_session[OF s,
      where r = "Response 500 (Json JNull)" and w' = "handleLogout restored"] t
  show ?thesis by simp
qed

section \<open>The signed-out component holds no posts\<close>

lemma fetch_fields [simp]:
  "posts (fetch rq k w) = posts w" "authToken (fetch rq k w) = authToken w"
  "effectToken (fetch rq k w) = effectToken w"
  by (simp_all add: fetch_def)

lemma clearAuth_fields [simp]:
  "posts (clearAuth w) = posts w" "authToken (clearAuth w) = JStr []"
  "effectToken (clearAuth w) = effectToken w"
  by (simp_all add: clearAuth_def)

lemma resetForm_fields [simp]:
  "posts (resetForm w) = posts w" "authToken (resetForm w) = authToken w"
  "effectToken (resetForm w) = effectToken w"
  by (simp_all add: resetForm_def)

lemma take_pending_fields [simp]:
  "posts (take_pending i w) = posts w" "authToken (take_pending i w) = authToken w"
  "effectToken (take_pending i w) = effectToken w"
  by (simp_all add: take_pending_def)

lemma fetchPosts_fields [simp]:
  "posts (fetchPosts tok b w) = posts w" "authToken (fetchPosts tok b w) = authToken w"
  "effectToken (fetchPosts tok b w) = effectToken w"
  by (simp_all add: fetchPosts_def)

lemma fetchMe_fields [simp]:
  "posts (fetchMe tok w) = posts w" "authToken (fetchMe tok w) = authToken w"
  "effectToken (fetchMe tok w) = effectToken w"
  by (simp_all add: fetchMe_def)

lemma fetchPosts_catch_fields [simp]:
  "posts (fetchPosts_catch err w) = posts w"
  "effectToken (fetchPosts_catch err w) = effectToken w"
  by (simp_all add: fetchPosts_catch_def)

lemma effect_fields [simp]:
  "authToken (effect w) = authToken w" "effectToken (effect w) = effectToken w"
  by (simp_all add: effect_def)

lemma effect_signed_out: "\<not> truthy (authToken w) \<Longrightarrow> posts (effect w) = []"
  by (simp add: effect_def)

text \<open>
  After a handler the effect restores \<open>settled\<close>, provided the handler left
  \<open>effectToken\<close> alone and, where it kept the token, did not fill the posts of a
  signed-out component.
\<close>

lemma settled_run_effect:
  assumes "effectToken w' = authToken w"
    and "authToken w' = authToken w \<Longrightarrow> truthy (authToken w') \<or> posts w' = []"
  shows "settled (run_effect w')"
proof (cases "authToken w' = effectToken w'")
  case True
  with assms show ?thesis by (simp add: run_effect_def settled_def)
next
  case False
  then show ?thesis
    by (cases "truthy (authToken w')")
       (simp_all add: run_effect_def settled_def effect_signed_out)
qed

lemma fetchPosts_resume_effectToken [simp]:
  "effectToken (fetchPosts_resume r w) = effectToken w"
  by (simp add: fetchPosts_resume_def split: fetch_result.split body.split)

lemma fetchPosts_resume_posts:
  "\<not> parsed_ok r \<Longrightarrow> posts (fetchPosts_resume r w) = posts w"
  by (cases r rule: parsed_ok.cases) (simp_all add: fetchPosts_resume_def)

lemma fetchMe_resume_fields [simp]:
  "effectToken (fetchMe_resume r w) = effectToken w"
  "posts (fetchMe_resume r w) = posts w"
  by (simp_all add: fetchMe_resume_def split: fetch_result.split body.split)

lemma handleAuthSubmit_resume_fields [simp]:
  "effectToken (handleAuthSubmit_resume toStr r w) = effectToken w"
  "posts (handleAuthSubmit_resume toStr r w) = posts w"
  by (simp_all add: handleAuthSubmit_resume_def split: fetch_result.split)

lemma handleLogout_resume_fields [simp]:
  "effectToken (handleLogout_resume r w) = effectToken w"
  "posts (handleLogout_resume r w) = posts w"
  by (simp_all add: handleLogout_resume_def)

lemma handleSubmit_resume_fields [simp]:
  "effectToken (handleSubmit_resume editing tok r w) = effectToken w"
  "posts (handleSubmit_resume editing tok r w) = posts w"
  by (simp_all add: handleSubmit_resume_def split: fetch_result.split)

lemma handleDelete_resume_fields [simp]:
  "effectToken (handleDelete_resume postId r w) = effectToken w"
  "posts w = [] \<Longrightarrow> posts (handleDelete_resume postId r w) = []"
  by (simp_all add: handleDelete_resume_def split: fetch_result.split)

lemma posts_response_effectToken [simp]:
  "effectToken (posts_response i r w) = effectToken w"
  by (simp add: posts_response_def split: continuation.split)

lemma posts_response_posts:
  "\<not> parsed_ok r \<Longrightarrow> posts w = [] \<Longrightarrow> posts (posts_response i r w) = []"
  by (simp add: posts_response_def fetchPosts_resume_posts split: continuation.split)

lemma other_response_fields [simp]:
  "effectToken (other_response toStr i r w) = effectToken w"
  "posts w = [] \<Longrightarrow> posts (other_response toStr i r w) = []"
  by (simp_all add: other_response_def split: continuation.split)

lemma handleChange_fields [simp]:
  "effectToken (handleChange f v w) = effectToken w" "posts (handleChange f v w) = posts w"
  by (cases f; simp)+

lemma handleAuthChange_fields [simp]:
  "effectToken (handleAuthChange f v w) = effectToken w"
  "posts (handleAuthChange f v w) = posts w"
  by (cases f; simp)+

lemma handle_effectToken: "effectToken (handle toStr e w) = effectToken w"
  by (cases e)
     (simp_all add: handleAuthMode_def handleAuthSubmit_def handleLogout_def handleSubmit_def
        handleEdit_def handleCancelEdit_def handleDelete_def)

lemma handle_posts:
  assumes "posts w = []" and "\<not> truthy (authToken w)" and "\<not> stale_list e w"
  shows "posts (handle toStr e w) = []"
  using assms
  by (cases e)
     (simp_all add: handleAuthMode_def handleAuthSubmit_def handleLogout_def handleSubmit_def
        handleEdit_def handleCancelEdit_def handleDelete_def posts_response_posts)

lemma settled_step:
  assumes "settled w" and "\<not> stale_list e w"
  shows "settled (step toStr e w)"
  unfolding step_def
proof (rule settled_run_effect)
  show "effectToken (handle toStr e w) = authToken w"
    using assms(1) by (simp add: handle_effectToken settled_def)
next
  assume same: "authToken (handle toStr e w) = authToken w"
  show "truthy (authToken (handle toStr e w)) \<or> posts (handle toStr e w) = []"
  proof (cases "truthy (authToken w)")
    case True
    with same show ?thesis by simp
  next
    case False
    with assms(1) have "posts w = []" by (simp add: settled_def)
    with False assms(2) show ?thesis by (simp add: handle_posts)
  qed
qed

lemma settled_mount: "settled (mount stored)"
  by (cases stored) (simp_all add: mount_def initial_def settled_def effect_def js_or_def)

lemma settled_run:
  "settled w \<Longrightarrow> fresh toStr w es \<Longrightarrow> settled (run toStr w es)"
  by (induction es arbitrary: w) (simp_all add: settled_step)

text \<open>
  Claim C10, as amended.  The cached posts are empty in the first render and after the
  mount.  After every run of events in which no list response arrives ok while the
  token is empty, once the effect on the token has run, an empty token goes with an
  empty list of cached posts.  The render committed by an operation that clears the
  session (the logout, a failed \<^verbatim>\<open>GET /auth/me\<close>, a 401 on the list) still holds the
  posts it found: it is the effect, run after that render, that empties the list.  And
  a list response that arrives ok stores its posts and leaves the token alone, whatever
  the token is.
\<close>

theorem signed_out_posts_empty:
  "posts (initial stored) = [] \<and> posts (mount stored) = [] \<and>
   (fresh toStr (mount stored) es \<and> \<not> isAuthed (run toStr (mount stored) es) \<longrightarrow>
      posts (run toStr (mount stored) es) = []) \<and>
   \<not> isAuthed (handleLogout_resume r w) \<and> posts (handleLogout_resume r w) = posts w \<and>
   (\<not> parsed_ok r \<longrightarrow>
      \<not> isAuthed (fetchMe_resume r w) \<and> posts (fetchMe_resume r w) = posts w) \<and>
   \<not> isAuthed (fetchPosts_resume (Response 401 b) w) \<and>
   posts (fetchPosts_resume (Response 401 b) w) = posts w \<and>
   (\<not> isAuthed w \<longrightarrow> posts (effect w) = []) \<and>
   (\<not> isAuthed w \<and> authToken w \<noteq> effectToken w \<longrightarrow> posts (run_effect w) = []) \<and>
   (ok status \<and> i < length (pending w) \<and> snd (pending w ! i) = AwaitPosts inSubmit \<longrightarrow>
      posts (handle toStr (PostsResponse i (Response status (Json data))) w) = data \<and>
      authToken (handle toStr (PostsResponse i (Response status (Json data))) w) =
        authToken w)"
proof (intro conjI impI)
  show "posts (initial stored) = []"
    by (simp add: initial_def)
  show "posts (mount stored) = []"
    using settled_mount[of stored]
    by (cases stored) (simp_all add: mount_def initial_def effect_def js_or_def)
next
  assume "fresh toStr (mount stored) es \<and> \<not> isAuthed (run toStr (mount stored) es)"
  with settled_run[OF settled_mount, of toStr stored es]
  show "posts (run toStr (mount stored) es) = []"
    by (simp add: settled_def isAuthed_def)
next
  show "\<not> isAuthed (handleLogout_resume r w)"
    by (simp add: handleLogout_resume_def isAuthed_def)
  show "posts (handleLogout_resume r w) = posts w"
    by simp
next
  assume "\<not> parsed_ok r"
  then show "\<not> isAuthed (fetchMe_resume r w)"
    by (cases r rule: parsed_ok.cases) (simp_all add: fetchMe_resume_def isAuthed_def)
next
  show "posts (fetchMe_resume r w) = posts w"
    by simp
next
  show "\<not> isAuthed (fetchPosts_resume (Response 401 b) w)"
    by (simp add: fetchPosts_resume_def fetchPosts_catch_def isAuthed_def not_ok_401
          expired_is_expired del: session_expired.simps)
  show "posts (fetchPosts_resume (Response 401 b) w) = posts w"
    by (cases b) (simp_all add: fetchPosts_resume_posts not_ok_401)
next
  assume "\<not> isAuthed w"
  then show "posts (effect w) = []"
    by (simp add: effect_signed_out isAuthed_def)
next
  assume "\<not> isAuthed w \<and> authToken w \<noteq> effectToken w"
  then show "posts (run_effect w) = []"
    by (simp add: run_effect_def effect_def isAuthed_def)
next
  assume a: "ok status \<and> i < length (pending w) \<and> snd (pending w ! i) = AwaitPosts inSubmit"
  then show "posts (handle toStr (PostsResponse i (Response status (Json data))) w) = data"
    by (simp add: posts_response_def fetchPosts_resume_def)
  from a show "authToken (handle toStr (PostsResponse i (Response status (Json data))) w) =
      authToken w"
    by (simp add: posts_response_def fetchPosts_resume_def)
qed

text \<open>
  A restored session receives its list, then the user signs out and the logout call is
  answered: the render committed by the answer has no token and still both posts, and
  after the effect the list is empty.  In another restored session the call of
  \<^verbatim>\<open>GET /auth/me\<close> is rejected and the list arrives afterwards: it is stored.
\<close>

theorem signed_out_posts_empty_witness:
  "posts (run sample_toStr (mount (Some ''T''))
      [PostsResponse 1 (Response 200 (Json [post_a, post_b]))]) = [post_a, post_b] \<and>
   fresh sample_toStr (mount (Some ''T''))
      [PostsResponse 1 (Response 200 (Json [post_a, post_b])), Logout,
       OtherResponse 1 (Response 200 (Json JNull))] \<and>
   \<not> isAuthed (run sample_toStr (mount (Some ''T''))
      [PostsResponse 1 (Response 200 (Json [post_a, post_b])), Logout,
       OtherResponse 1 (Response 200 (Json JNull))]) \<and>
   posts (run sample_toStr (mount (Some ''T''))
      [PostsResponse 1 (Response 200 (Json [post_a, post_b])), Logout,
       OtherResponse 1 (Response 200 (Json JNull))]) = [] \<and>
   \<not> isAuthed (handle sample_toStr (OtherResponse 1 (Response 200 (Json JNull)))
      (run sample_toStr (mount (Some ''T''))
         [PostsResponse 1 (Response 200 (Json [post_a, post_b])), Logout])) \<and>
   posts (handle sample_toStr (OtherResponse 1 (Response 200 (Json JNull)))
      (run sample_toStr (mount (Some ''T''))
         [PostsResponse 1 (Response 200 (Json [post_a, post_b])), Logout])) =
     [post_a, post_b] \<and>
   posts (handle sample_toStr (PostsResponse 0 (Response 200 (Json [post_a])))
      (run sample_toStr (mount (Some ''T''))
         [OtherResponse 0 (Rejected (ErrorObj ''Failed to fetch''))])) = [post_a]"
proof -
  let ?out = "run sample_toStr (mount (Some ''T''))
         [OtherResponse 0 (Rejected (ErrorObj ''Failed to fetch''))]"
  have p: "posts (run sample_toStr (mount (Some ''T''))
      [PostsResponse 1 (Response 200 (Json [post_a, post_b]))]) = [post_a, post_b]"
    by code_simp
  have f: "fresh sample_toStr (mount (Some ''T''))
      [PostsResponse 1 (Response 200 (Json [post_a, post_b])), Logout,
       OtherResponse 1 (Response 200 (Json JNull))]"
    by code_simp
  have a: "\<not> isAuthed (run sample_toStr (mount (Some ''T''))
      [PostsResponse 1 (Response 200 (Json [post_a, post_b])), Logout,
       OtherResponse 1 (Response 200 (Json JNull))])"
    by code_simp
  have c: "\<not> isAuthed (handle sample_toStr (OtherResponse 1 (Response 200 (Json JNull)))
      (run sample_toStr (mount (Some ''T''))
         [PostsResponse 1 (Response 200 (Json [post_a, post_b])), Logout])) \<and>
   posts (handle sample_toStr (OtherResponse 1 (Response 200 (Json JNull)))
      (run sample_toStr (mount (Some ''T''))
         [PostsResponse 1 (Response 200 (Json [post_a, post_b])), Logout])) =
     [post_a, post_b]"
    by code_simp
  have s: "ok 200 \<and> 0 < length (pending ?out) \<and> snd (pending ?out ! 0) = AwaitPosts False"
    by code_simp
  from signed_out_posts_empty[where toStr = sample_toStr and stored = "Some ''T''"
      and es = "[PostsResponse 1 (Response 200 (Json [post_a, post_b])), Logout,
                 OtherResponse 1 (Response 200 (Json JNull))]"] f a
  have "posts (run sample_toStr (mount (Some ''T''))
      [PostsResponse 1 (Response 200 (Json [post_a, post_b])), Logout,
       OtherResponse 1 (Response 200 (Json JNull))]) = []"
    by blast
  moreover from signed_out_posts_empty[where toStr = sample_toStr and w = ?out
      and status = 200 and i = 0 and inSubmit = False and data = "[post_a]"] s
  have "posts (handle sample_toStr (PostsResponse 0 (Response 200 (Json [post_a]))) ?out) =
      [post_a]"
    by blast
  ultimately show ?thesis
    using p f a c by blast
qed

text \<open>
  The claim as stated, for every state with an empty token, fails on a response that
  arrives late.  The effect of a restored session calls \<^verbatim>\<open>GET /auth/me\<close> and
  \<^verbatim>\<open>GET /posts\<close> together; when the first call is rejected, the session is cleared and
  the list emptied, and when the second is then answered ok, its posts are stored: the
  token is empty and the list is not.
\<close>

theorem stale_list_counterexample:
  "authToken (run sample_toStr (mount (Some ''T''))
      [OtherResponse 0 (Rejected (ErrorObj ''Failed to fetch'')),
       PostsResponse 0 (Response 200 (Json [post_a]))]) = JStr [] \<and>
   \<not> isAuthed (run sample_toStr (mount (Some ''T''))
      [OtherResponse 0 (Rejected (ErrorObj ''Failed to fetch'')),
       PostsResponse 0 (Response 200 (Json [post_a]))]) \<and>
   posts (run sample_toStr (mount (Some ''T''))
      [OtherResponse 0 (Rejected (ErrorObj ''Failed to fetch'')),
       PostsResponse 0 (Response 200 (Json [post_a]))]) = [post_a]"
  by code_simp

end
